theory Spec2Isabelle
  imports Main "HOL-Library.Word"
begin

section \<open>Values, errors and mocked collaborators\<close>

text \<open>
  The file \<open>adb.js\<close> drives two collaborators it does not define: the \<open>ADBDevice\<close> object
  behind \<open>this.device\<close> and the \<open>usb\<close> library. Their methods are asynchronous; a call
  either resolves with a value, rejects with an error, or never settles. The model keeps
  the small part of the JavaScript value universe that \<open>adb.js\<close> inspects.
\<close>

record packet =
  command :: "32 word"
  arg0 :: "32 word"
  arg1 :: "32 word"
  data :: string

datatype jsval = JUndefined | JBool bool | JString string | JPacket packet

text \<open>
  Thrown values. \<open>Error m\<close> is \<open>new Error(m)\<close>; \<open>TypeError m\<close> is what the runtime throws
  when a property of \<open>undefined\<close> is read; \<open>TransferError n\<close> is an error of the transport
  that carries the field \<open>errno = n\<close> (the USB library reports a timed-out transfer with
  \<open>errno = 2\<close>); \<open>CommandError c\<close> is an error whose message names the command \<open>c\<close> of a
  reply (\<open>None\<close> when the reply has no such field).
\<close>

datatype js_error =
    Error string
  | TypeError string
  | TransferError int
  | CommandError "32 word option"

text \<open>The expression \<open>e.errno\<close>: \<open>None\<close> stands for \<open>undefined\<close>.\<close>

fun errno :: "js_error \<Rightarrow> int option" where
  "errno (TransferError n) = Some n"
| "errno _ = None"

text \<open>JavaScript truthiness, as used by \<open>if (await ...)\<close>.\<close>

fun truthy :: "jsval \<Rightarrow> bool" where
  "truthy JUndefined = False"
| "truthy (JBool b) = b"
| "truthy (JString s) = (s \<noteq> [])"
| "truthy (JPacket p) = True"

text \<open>
  The expression \<open>packet.data\<close>: reading a property of \<open>undefined\<close> throws, a packet yields
  its payload, and a boolean or a string has no such property.
\<close>

fun get_data :: "jsval \<Rightarrow> js_error + jsval" where
  "get_data JUndefined = Inl (TypeError ''Cannot read property 'data' of undefined'')"
| "get_data (JPacket p) = Inr (JString (data p))"
| "get_data _ = Inr JUndefined"

text \<open>The expression \<open>packet.command\<close>, with \<open>None\<close> for \<open>undefined\<close>.\<close>

fun get_command :: "jsval \<Rightarrow> js_error + 32 word option" where
  "get_command JUndefined = Inl (TypeError ''Cannot read property 'command' of undefined'')"
| "get_command (JPacket p) = Inr (Some (command p))"
| "get_command _ = Inr None"

datatype outcome = Resolve jsval | Reject js_error

text \<open>
  A collaborator is a mock in the style of the unit tests: \<open>script\<close> holds the outcomes of
  its next calls in order, \<open>calls\<close> records the calls made so far, each with its outcome.
  A call on an exhausted script is recorded with \<open>None\<close> and never settles.
\<close>

record 'c mock =
  script :: "outcome list"
  calls :: "('c \<times> outcome option) list"

definition invoke :: "'c \<Rightarrow> 'c mock \<Rightarrow> outcome option \<times> 'c mock" where
  "invoke c m =
     (case script m of
        [] \<Rightarrow> (None, m\<lparr>calls := calls m @ [(c, None)]\<rparr>)
      | r # rs \<Rightarrow> (Some r, m\<lparr>script := rs, calls := calls m @ [(c, Some r)]\<rparr>))"

text \<open>What an asynchronous function does: return, throw, or wait forever.\<close>

datatype ('a, 's) result = Returned 'a 's | Thrown js_error 's | Pending 's

text \<open>The object as the function leaves it.\<close>

fun final :: "('a, 's) result \<Rightarrow> 's" where
  "final (Returned v s) = s"
| "final (Thrown e s) = s"
| "final (Pending s) = s"

section \<open>The ADB object\<close>

text \<open>The tagged requests accepted by \<open>ADBDevice.open\<close>, as the unit tests build them.\<close>

datatype request =
    Shell string bool
  | Push string string
  | Pull string string
  | List string
  | Install string
  | Uninstall string
  | Reboot

datatype adb_call =
    InitConnection
  | WaitForAuth
  | SendSignedToken jsval
  | SendPublicKey
  | Open request
  | CloseConnection

definition NOT_CONNECTED :: int where "NOT_CONNECTED = 0"
definition WAIT_FOR_AUTH :: int where "WAIT_FOR_AUTH = 1"
definition SEND_PRIVATE_KEY :: int where "SEND_PRIVATE_KEY = 2"
definition SEND_PUBLIC_KEY :: int where "SEND_PUBLIC_KEY = 3"
definition CONNECTED :: int where "CONNECTED = 4"

record adb =
  state :: int
  device :: "adb_call mock"

subsection \<open>connect\<close>

text \<open>
  One pass through the body of \<open>while (1) { switch (this.state) ... }\<close>. \<open>packet\<close> is the
  local variable of \<open>connect\<close>, which lives across iterations. \<open>Next\<close> is \<open>break\<close> out of
  the switch (the loop goes on), \<open>Done\<close> is \<open>return\<close>, \<open>Raised\<close> is an error leaving
  \<open>connect\<close>, \<open>Blocked\<close> is an \<open>await\<close> that never settles.
\<close>

datatype flow = Next adb jsval | Done adb | Raised js_error adb | Blocked adb

definition step :: "adb \<Rightarrow> jsval \<Rightarrow> flow" where
  "step this packet =
    (if state this = NOT_CONNECTED then
       (case invoke InitConnection (device this) of
          (None, d) \<Rightarrow> Blocked (this\<lparr>device := d\<rparr>)
        | (Some (Reject e), d) \<Rightarrow> Raised e (this\<lparr>device := d\<rparr>)
        | (Some (Resolve v), d) \<Rightarrow> Next (this\<lparr>state := WAIT_FOR_AUTH, device := d\<rparr>) packet)
     else if state this = WAIT_FOR_AUTH then
       (case invoke WaitForAuth (device this) of
          (None, d) \<Rightarrow> Blocked (this\<lparr>device := d\<rparr>)
        | (Some (Resolve v), d) \<Rightarrow>
            if v = JBool False then Next (this\<lparr>state := NOT_CONNECTED, device := d\<rparr>) v
            else Next (this\<lparr>state := SEND_PRIVATE_KEY, device := d\<rparr>) v
        | (Some (Reject e), d) \<Rightarrow>
            if errno e = Some 2 then Next (this\<lparr>state := NOT_CONNECTED, device := d\<rparr>) packet
            else Raised e (this\<lparr>device := d\<rparr>))
     else if state this = SEND_PRIVATE_KEY then
       (case get_data packet of
          Inl e \<Rightarrow>
            if errno e = Some 2 then Next (this\<lparr>state := NOT_CONNECTED\<rparr>) packet
            else Raised e this
        | Inr token \<Rightarrow>
            (case invoke (SendSignedToken token) (device this) of
               (None, d) \<Rightarrow> Blocked (this\<lparr>device := d\<rparr>)
             | (Some (Resolve v), d) \<Rightarrow>
                 if truthy v then Next (this\<lparr>state := CONNECTED, device := d\<rparr>) packet
                 else Next (this\<lparr>state := SEND_PUBLIC_KEY, device := d\<rparr>) packet
             | (Some (Reject e), d) \<Rightarrow>
                 if errno e = Some 2 then Next (this\<lparr>state := NOT_CONNECTED, device := d\<rparr>) packet
                 else Raised e (this\<lparr>device := d\<rparr>)))
     else if state this = SEND_PUBLIC_KEY then
       (case invoke SendPublicKey (device this) of
          (None, d) \<Rightarrow> Blocked (this\<lparr>device := d\<rparr>)
        | (Some (Resolve v), d) \<Rightarrow>
            if truthy v then Next (this\<lparr>state := CONNECTED, device := d\<rparr>) packet
            else Next (this\<lparr>state := NOT_CONNECTED, device := d\<rparr>) packet
        | (Some (Reject e), d) \<Rightarrow>
            if errno e = Some 2 then Next (this\<lparr>state := NOT_CONNECTED, device := d\<rparr>) packet
            else Raised e (this\<lparr>device := d\<rparr>))
     else if state this = CONNECTED then Done this
     else Next (this\<lparr>state := NOT_CONNECTED\<rparr>) packet)"

text \<open>
  The loop runs until the body returns, throws or blocks. Every iteration either consumes
  one scripted outcome or, from an unknown state value, moves to \<open>NOT_CONNECTED\<close>.
\<close>

definition known :: "int \<Rightarrow> bool" where
  "known s = (s = NOT_CONNECTED \<or> s = WAIT_FOR_AUTH \<or> s = SEND_PRIVATE_KEY
              \<or> s = SEND_PUBLIC_KEY \<or> s = CONNECTED)"

definition budget :: "adb \<Rightarrow> nat" where
  "budget this = 2 * length (script (device this)) + (if known (state this) then 0 else 1)"

function connect_loop :: "adb \<Rightarrow> jsval \<Rightarrow> (unit, adb) result" where
  "connect_loop this packet =
     (case step this packet of
        Next this' packet' \<Rightarrow> connect_loop this' packet'
      | Done this' \<Rightarrow> Returned () this'
      | Raised e this' \<Rightarrow> Thrown e this'
      | Blocked this' \<Rightarrow> Pending this')"
  by pat_completeness auto
termination
proof (relation "measure (\<lambda>(this, packet). budget this)")
  show "wf (measure (\<lambda>(this, packet). budget this))"
    by simp
next
  fix this packet this' packet'
  assume next_iteration: "step this packet = Next this' packet'"
  have no_errno: "errno e = None" if "get_data v = Inl e" for v e
    using that by (cases v) auto
  from next_iteration have "budget this' < budget this"
    by (auto simp: step_def invoke_def budget_def known_def
          NOT_CONNECTED_def WAIT_FOR_AUTH_def SEND_PRIVATE_KEY_def SEND_PUBLIC_KEY_def
          CONNECTED_def
        split: if_splits list.splits sum.splits outcome.splits dest: no_errno)
  then show "((this', packet'), (this, packet)) \<in> measure (\<lambda>(this, packet). budget this)"
    by simp
qed

definition connect :: "adb \<Rightarrow> (unit, adb) result" where
  "connect this = connect_loop this JUndefined"

subsection \<open>runCommand\<close>

definition runCommand :: "adb \<Rightarrow> request \<Rightarrow> (jsval, adb) result" where
  "runCommand this cmd =
     (if state this = CONNECTED then
        (case invoke (Open cmd) (device this) of
           (None, d) \<Rightarrow> Pending (this\<lparr>device := d\<rparr>)
         | (Some (Reject e), d) \<Rightarrow> Thrown e (this\<lparr>device := d\<rparr>)
         | (Some (Resolve output), d) \<Rightarrow> Returned output (this\<lparr>device := d\<rparr>))
      else Thrown (Error ''State is not CONNECTED, cannot run a command.'') this)"

section \<open>USB enumeration\<close>

text \<open>
  A device of the \<open>usb\<close> library, as far as \<open>adb.js\<close> reads it. \<open>None\<close> stands for
  \<open>null\<close>. \<open>stringDescriptor\<close> is the outcome of the control transfer that asks the
  device for its serial-number string descriptor.
\<close>

datatype endpoint = InEndpoint int | OutEndpoint int

record interface_descriptor =
  bInterfaceClass :: int
  bInterfaceSubClass :: int
  bInterfaceProtocol :: int

record usb_interface =
  endpoints :: "endpoint list"
  descriptor :: interface_descriptor

record device_descriptor =
  idVendor :: int
  iSerialNumber :: int

record config_descriptor =
  bNumInterfaces :: int

record usb_device =
  deviceDescriptor :: "device_descriptor option"
  configDescriptor :: "config_descriptor option"
  interfaces :: "usb_interface list option"
  stringDescriptor :: "js_error + 8 word list"

text \<open>The operations performed on devices, in order.\<close>

datatype usb_op =
    OpenDevice usb_device
  | CloseDevice usb_device
  | ControlTransfer usb_device int int int int int

text \<open>
  Modelled from the spec: the constants \<open>ADB_VALUES\<close> of \<open>lib/constants\<close>, which is not
  among the sources; the interface filter is \<open>bInterfaceClass=0xFF\<close>,
  \<open>bInterfaceSubClass=0x42\<close>, \<open>bInterfaceProtocol=0x01\<close>.
\<close>

definition ADB_CLASS :: int where "ADB_CLASS = 0xFF"
definition ADB_SUBCLASS :: int where "ADB_SUBCLASS = 0x42"
definition ADB_PROTOCOL :: int where "ADB_PROTOCOL = 0x01"

text \<open>The \<open>for (let iface of interfaces)\<close> loop of \<open>_getAdbInterface\<close>.\<close>

fun searchInterfaces :: "usb_interface list \<Rightarrow> usb_interface option" where
  "searchInterfaces [] = None"
| "searchInterfaces (iface # rest) =
     (if length (endpoints iface) \<noteq> 2 then searchInterfaces rest
      else if bInterfaceClass (descriptor iface) \<noteq> ADB_CLASS
              \<or> bInterfaceSubClass (descriptor iface) \<noteq> ADB_SUBCLASS
              \<or> bInterfaceProtocol (descriptor iface) \<noteq> ADB_PROTOCOL
           then searchInterfaces rest
      else Some iface)"

text \<open>\<open>_getAdbInterface\<close> (an Isabelle name cannot start with an underscore).\<close>

definition getAdbInterface :: "usb_device \<Rightarrow> usb_op list \<times> usb_interface option" where
  "getAdbInterface dev =
     ([OpenDevice dev],
      case interfaces dev of
        None \<Rightarrow> None
      | Some ifaces \<Rightarrow>
          if deviceDescriptor dev \<noteq> None \<and> configDescriptor dev \<noteq> None
          then searchInterfaces ifaces
          else None)"

text \<open>
  \<open>Buffer.toString('utf16le', start)\<close>: the bytes from \<open>start\<close> on, two per code unit,
  low byte first; a trailing single byte is dropped. The result is a JavaScript string, a
  sequence of 16-bit code units.
\<close>

fun utf16le :: "8 word list \<Rightarrow> 16 word list" where
  "utf16le (lo # hi # rest) = (ucast lo + 256 * ucast hi) # utf16le rest"
| "utf16le _ = []"

definition toString_utf16le :: "8 word list \<Rightarrow> nat \<Rightarrow> 16 word list" where
  "toString_utf16le buf start = utf16le (drop start buf)"

text \<open>Constants of libusb used by \<open>_getSerialNo\<close>.\<close>

definition LIBUSB_ENDPOINT_IN :: int where "LIBUSB_ENDPOINT_IN = 0x80"
definition LIBUSB_REQUEST_GET_DESCRIPTOR :: int where "LIBUSB_REQUEST_GET_DESCRIPTOR = 0x06"
definition LIBUSB_DT_STRING :: int where "LIBUSB_DT_STRING = 0x03"

text \<open>\<open>_getSerialNo\<close>. The device stays open when the transfer fails.\<close>

definition getSerialNo :: "usb_device \<Rightarrow> usb_op list \<times> (js_error + 16 word list)" where
  "getSerialNo dev =
     (let langid = 0x0409; len = 255 in
      case deviceDescriptor dev of
        None \<Rightarrow> ([OpenDevice dev],
                 Inl (TypeError ''Cannot read property 'iSerialNumber' of null''))
      | Some dd \<Rightarrow>
          (let transfer = ControlTransfer dev LIBUSB_ENDPOINT_IN LIBUSB_REQUEST_GET_DESCRIPTOR
                            (or (push_bit 8 LIBUSB_DT_STRING) (iSerialNumber dd)) langid len
           in case stringDescriptor dev of
                Inl e \<Rightarrow> ([OpenDevice dev, transfer], Inl e)
              | Inr serialNumber \<Rightarrow>
                  ([OpenDevice dev, transfer, CloseDevice dev],
                   Inr (toString_utf16le serialNumber 2))))"

text \<open>An element of the array that \<open>findAdbDevices\<close> returns.\<close>

datatype adb_entry = AdbEntry usb_device usb_interface "16 word list"

text \<open>
  The \<open>for (let device of usbDevices)\<close> loop of \<open>findAdbDevices\<close>. \<open>vendors\<close> is the
  table \<open>USB_VENDOR_IDS\<close> of \<open>lib/constants\<close>, \<open>adbDevices\<close> the array built so far and
  \<open>ops\<close> the operations performed so far.
\<close>

fun scanDevices ::
  "int list \<Rightarrow> usb_device list \<Rightarrow> adb_entry list \<Rightarrow> usb_op list
     \<Rightarrow> usb_op list \<times> (js_error + adb_entry list)" where
  "scanDevices vendors [] adbDevices ops = (ops, Inr adbDevices)"
| "scanDevices vendors (dev # rest) adbDevices ops =
     (case deviceDescriptor dev of
        None \<Rightarrow> (ops, Inl (TypeError ''Cannot read property 'idVendor' of null''))
      | Some dd \<Rightarrow>
          if idVendor dd \<notin> set vendors then scanDevices vendors rest adbDevices ops
          else
            (case getAdbInterface dev of
               (ops1, None) \<Rightarrow> scanDevices vendors rest adbDevices (ops @ ops1)
             | (ops1, Some deviceInterface) \<Rightarrow>
                 (case getSerialNo dev of
                    (ops2, Inl e) \<Rightarrow> (ops @ ops1 @ ops2, Inl e)
                  | (ops2, Inr serialNumber) \<Rightarrow>
                      scanDevices vendors rest
                        (adbDevices @ [AdbEntry dev deviceInterface serialNumber])
                        (ops @ ops1 @ ops2))))"

text \<open>\<open>findAdbDevices\<close>, given the list that \<open>usb.getDeviceList()\<close> returns.\<close>

definition findAdbDevices ::
  "int list \<Rightarrow> usb_device list \<Rightarrow> usb_op list \<times> (js_error + adb_entry list)" where
  "findAdbDevices vendors usbDevices =
     (if length usbDevices = 0 then ([], Inl (Error ''No USB devices found.''))
      else
        (case scanDevices vendors usbDevices [] [] of
           (ops, Inl e) \<Rightarrow> (ops, Inl e)
         | (ops, Inr adbDevices) \<Rightarrow>
             if length adbDevices = 0 then (ops, Inl (Error ''No ADB devices found.''))
             else (ops, Inr adbDevices)))"

section \<open>The ADB device on its transport\<close>

text \<open>
  The class \<open>ADBDevice\<close> (\<open>lib/adb-device\<close>) is known here through its unit tests only.
  It talks to a transport with the two methods \<open>_sendMsg(cmd, arg0, arg1, payload)\<close> and
  \<open>_recvMsg(maxdata)\<close>, which the tests mock.
\<close>

datatype usb_call =
    SendMsg "32 word" "32 word" "32 word" string
  | RecvMsg nat

text \<open>
  Modelled from the spec: the constants \<open>ADB_COMMANDS\<close> and \<open>CONNECT_VALUES\<close> of
  \<open>lib/constants\<close>, which is not among the sources. Commands are ASCII little-endian
  32-bit tags, \<open>MAXDATA\<close> is 4096.
\<close>

definition CMD_CNXN :: "32 word" where "CMD_CNXN = 0x4E584E43"
definition CMD_AUTH :: "32 word" where "CMD_AUTH = 0x48545541"
definition CMD_OPEN :: "32 word" where "CMD_OPEN = 0x4E45504F"
definition CMD_OKAY :: "32 word" where "CMD_OKAY = 0x59414B4F"
definition CMD_CLSE :: "32 word" where "CMD_CLSE = 0x45534C43"
definition CMD_WRTE :: "32 word" where "CMD_WRTE = 0x45545257"
definition CMD_SYNC :: "32 word" where "CMD_SYNC = 0x434E5953"
definition CONNECT_MAXDATA :: nat where "CONNECT_MAXDATA = 4096"

text \<open>
  Modelled from the spec: \<open>ADBDevice.sendAndOkay\<close> of \<open>lib/adb-device\<close>, which is not among
  the sources. It sends one message, receives one message of at most \<open>MAXDATA\<close> bytes,
  throws an error containing the command type if the command was not OKAY, and returns the
  packet if it was.
\<close>

definition sendAndOkay ::
  "32 word \<Rightarrow> 32 word \<Rightarrow> 32 word \<Rightarrow> string \<Rightarrow> usb_call mock \<Rightarrow> (jsval, usb_call mock) result"
  where
  "sendAndOkay cmd a0 a1 payload usb =
     (case invoke (SendMsg cmd a0 a1 payload) usb of
        (None, u) \<Rightarrow> Pending u
      | (Some (Reject e), u) \<Rightarrow> Thrown e u
      | (Some (Resolve sent), u) \<Rightarrow>
          (case invoke (RecvMsg CONNECT_MAXDATA) u of
             (None, u') \<Rightarrow> Pending u'
           | (Some (Reject e), u') \<Rightarrow> Thrown e u'
           | (Some (Resolve reply), u') \<Rightarrow>
               (case get_command reply of
                  Inl e \<Rightarrow> Thrown e u'
                | Inr c \<Rightarrow>
                    if c \<noteq> Some CMD_OKAY then Thrown (CommandError c) u'
                    else Returned reply u')))"

text \<open>
  Modelled from the spec: \<open>ADBDevice.sendPublicKey\<close> of \<open>lib/adb-device\<close>, which is not
  among the sources. It sends \<open>AUTH(RSAPUBLICKEY, 0, pubkey\0)\<close> with \<open>RSAPUBLICKEY = 3\<close>,
  receives one message, and returns true if the response was CNXN and false if it was not.
  \<open>publicKey\<close> is the ADB-format public key of the key store.
\<close>

definition sendPublicKey :: "string \<Rightarrow> usb_call mock \<Rightarrow> (jsval, usb_call mock) result" where
  "sendPublicKey publicKey usb =
     (case invoke (SendMsg CMD_AUTH 3 0 (publicKey @ [CHR 0x00])) usb of
        (None, u) \<Rightarrow> Pending u
      | (Some (Reject e), u) \<Rightarrow> Thrown e u
      | (Some (Resolve sent), u) \<Rightarrow>
          (case invoke (RecvMsg CONNECT_MAXDATA) u of
             (None, u') \<Rightarrow> Pending u'
           | (Some (Reject e), u') \<Rightarrow> Thrown e u'
           | (Some (Resolve reply), u') \<Rightarrow>
               (case get_command reply of
                  Inl e \<Rightarrow> Thrown e u'
                | Inr c \<Rightarrow> Returned (JBool (c = Some CMD_CNXN)) u')))"

text \<open>
  Modelled from the spec: the stream engine's \<open>write(payload)\<close>, which is not among the
  sources, applied to a sequence of payloads: each one is sent as
  \<open>WRTE(local_id, remote_id, payload)\<close> and the OKAY is awaited before the next write.
\<close>

fun writeAll ::
  "32 word \<Rightarrow> 32 word \<Rightarrow> string list \<Rightarrow> usb_call mock \<Rightarrow> (unit, usb_call mock) result"
  where
  "writeAll localId remoteId [] usb = Returned () usb"
| "writeAll localId remoteId (payload # rest) usb =
     (case sendAndOkay CMD_WRTE localId remoteId payload usb of
        Returned reply u \<Rightarrow> writeAll localId remoteId rest u
      | Thrown e u \<Rightarrow> Thrown e u
      | Pending u \<Rightarrow> Pending u)"

text \<open>How a method call on the device settles, seen from its caller.\<close>

fun settled :: "(jsval, 's) result \<Rightarrow> outcome option" where
  "settled (Returned v s) = Some (Resolve v)"
| "settled (Thrown e s) = Some (Reject e)"
| "settled (Pending s) = None"

text \<open>
  The window of size one, read off a transport's record of calls: a WRTE is sent only as
  the first call or straight after a receive that resolved with an OKAY packet.
\<close>

fun is_wrte :: "usb_call \<times> outcome option \<Rightarrow> bool" where
  "is_wrte (SendMsg cmd a0 a1 payload, r) = (cmd = CMD_WRTE)"
| "is_wrte (RecvMsg n, r) = False"

fun is_okay :: "usb_call \<times> outcome option \<Rightarrow> bool" where
  "is_okay (RecvMsg n, Some (Resolve (JPacket p))) = (command p = CMD_OKAY)"
| "is_okay _ = False"

fun gated :: "(usb_call \<times> outcome option) list \<Rightarrow> bool" where
  "gated (x # y # rest) = ((is_wrte y \<longrightarrow> is_okay x) \<and> gated (y # rest))"
| "gated _ = True"

section \<open>Sample objects\<close>

text \<open>An ADB object in a given state whose device is a fresh mock with a given script.\<close>

definition mocked :: "int \<Rightarrow> outcome list \<Rightarrow> adb" where
  "mocked s outcomes = \<lparr>state = s, device = \<lparr>script = outcomes, calls = []\<rparr>\<rparr>"

text \<open>The device's challenge \<open>AUTH(TOKEN, 0, token)\<close> and its banner \<open>CNXN\<close>.\<close>

definition token_packet :: packet where
  "token_packet = \<lparr>command = CMD_AUTH, arg0 = 1, arg1 = 0, data = ''token''\<rparr>"

definition cnxn_packet :: packet where
  "cnxn_packet = \<lparr>command = CMD_CNXN, arg0 = 0x01000000, arg1 = 4096, data = ''device::''\<rparr>"

text \<open>The device that an operation works on.\<close>

fun op_device :: "usb_op \<Rightarrow> usb_device" where
  "op_device (OpenDevice dev) = dev"
| "op_device (CloseDevice dev) = dev"
| "op_device (ControlTransfer dev a b c d e) = dev"

text \<open>
  Sample USB devices: an ADB interface and a mass-storage interface; a phone of a listed
  vendor with both; a camera of a listed vendor with storage only; a dongle of an unlisted
  vendor that shows an ADB-like interface. The phone's serial number is \<open>A1\<close>.
\<close>

definition adb_iface :: usb_interface where
  "adb_iface = \<lparr>endpoints = [InEndpoint 0x81, OutEndpoint 0x01],
                descriptor = \<lparr>bInterfaceClass = 0xFF, bInterfaceSubClass = 0x42,
                               bInterfaceProtocol = 0x01\<rparr>\<rparr>"

definition storage_iface :: usb_interface where
  "storage_iface = \<lparr>endpoints = [InEndpoint 0x82, OutEndpoint 0x02],
                    descriptor = \<lparr>bInterfaceClass = 0x08, bInterfaceSubClass = 0x06,
                                   bInterfaceProtocol = 0x50\<rparr>\<rparr>"

definition phone :: usb_device where
  "phone = \<lparr>deviceDescriptor = Some \<lparr>idVendor = 0x18D1, iSerialNumber = 3\<rparr>,
            configDescriptor = Some \<lparr>bNumInterfaces = 2\<rparr>,
            interfaces = Some [storage_iface, adb_iface],
            stringDescriptor = Inr [0x06, 0x03, 0x41, 0x00, 0x31, 0x00]\<rparr>"

definition camera :: usb_device where
  "camera = \<lparr>deviceDescriptor = Some \<lparr>idVendor = 0x04E8, iSerialNumber = 3\<rparr>,
             configDescriptor = Some \<lparr>bNumInterfaces = 1\<rparr>,
             interfaces = Some [storage_iface],
             stringDescriptor = Inr [0x06, 0x03, 0x43, 0x00, 0x32, 0x00]\<rparr>"

definition dongle :: usb_device where
  "dongle = \<lparr>deviceDescriptor = Some \<lparr>idVendor = 0x1D6B, iSerialNumber = 0\<rparr>,
             configDescriptor = Some \<lparr>bNumInterfaces = 1\<rparr>,
             interfaces = Some [adb_iface],
             stringDescriptor = Inl (TransferError 4)\<rparr>"

definition sample_vendors :: "int list" where
  "sample_vendors = [0x18D1, 0x04E8, 0x0BB4]"

text \<open>A fresh transport mock, and two more packets: the device's OKAY and its CLSE.\<close>

definition transport :: "outcome list \<Rightarrow> usb_call mock" where
  "transport outcomes = \<lparr>script = outcomes, calls = []\<rparr>"

definition okay_packet :: packet where
  "okay_packet = \<lparr>command = CMD_OKAY, arg0 = 7, arg1 = 12345, data = []\<rparr>"

definition clse_packet :: packet where
  "clse_packet = \<lparr>command = CMD_CLSE, arg0 = 7, arg1 = 12345, data = []\<rparr>"

section \<open>Basic facts\<close>

lemmas fsm_states =
  NOT_CONNECTED_def WAIT_FOR_AUTH_def SEND_PRIVATE_KEY_def SEND_PUBLIC_KEY_def CONNECTED_def

lemmas adb_commands =
  CMD_CNXN_def CMD_AUTH_def CMD_OPEN_def CMD_OKAY_def CMD_CLSE_def CMD_WRTE_def CMD_SYNC_def

declare connect_loop.simps [simp del]

lemmas run_connect = connect_def connect_loop.simps step_def invoke_def mocked_def fsm_states

lemma get_data_errno: "get_data v = Inl e \<Longrightarrow> errno e = None"
  by (cases v) auto

lemma step_Done: "step this packet = Done this' \<longleftrightarrow> state this = CONNECTED \<and> this' = this"
  by (auto simp: step_def invoke_def fsm_states
      split: if_splits list.splits sum.splits outcome.splits)

lemma step_unknown:
  "\<not> known (state this) \<Longrightarrow> step this packet = Next (this\<lparr>state := NOT_CONNECTED\<rparr>) packet"
  by (simp add: step_def known_def)

lemma connect_loop_Returned:
  "connect_loop this packet = Returned u this' \<Longrightarrow> state this' = CONNECTED"
proof (induction this packet rule: connect_loop.induct)
  case (1 this packet)
  show ?case
  proof (cases "step this packet")
    case (Next x y)
    with 1 show ?thesis by (simp add: connect_loop.simps [of this])
  next
    case (Done x)
    with 1 show ?thesis by (simp add: connect_loop.simps [of this] step_Done)
  next
    case (Raised e x)
    with "1.prems" show ?thesis by (simp add: connect_loop.simps [of this])
  next
    case (Blocked x)
    with "1.prems" show ?thesis by (simp add: connect_loop.simps [of this])
  qed
qed

lemma connect_loop_Next:
  "step this packet = Next this' packet' \<Longrightarrow> connect_loop this packet = connect_loop this' packet'"
  by (simp add: connect_loop.simps [of this])

lemma connect_loop_Raised:
  "step this packet = Raised e this' \<Longrightarrow> connect_loop this packet = Thrown e this'"
  by (simp add: connect_loop.simps [of this])

text \<open>
  A rejected device call: a timeout outside \<open>NOT_CONNECTED\<close> resets the machine, anything else
  leaves \<open>connect\<close>. In \<open>SEND_PRIVATE_KEY\<close> the device is called only if \<open>packet.data\<close> can be
  read.
\<close>

lemma step_Reject:
  assumes "script (device this) = Reject e # rest"
    and "state this = SEND_PRIVATE_KEY \<longrightarrow> packet \<noteq> JUndefined"
    and "state this = NOT_CONNECTED \<or> state this = WAIT_FOR_AUTH
         \<or> state this = SEND_PRIVATE_KEY \<or> state this = SEND_PUBLIC_KEY"
  shows "\<exists>c. step this packet =
           (if errno e = Some 2 \<and> state this \<noteq> NOT_CONNECTED
            then Next (this\<lparr>state := NOT_CONNECTED,
                   device := (device this)\<lparr>script := rest,
                     calls := calls (device this) @ [(c, Some (Reject e))]\<rparr>\<rparr>) packet
            else Raised e (this\<lparr>device := (device this)\<lparr>script := rest,
                     calls := calls (device this) @ [(c, Some (Reject e))]\<rparr>\<rparr>))"
  using assms
  by (cases packet) (auto simp: step_def invoke_def fsm_states)

text \<open>Entering \<open>SEND_PRIVATE_KEY\<close> with no packet at hand: the \<open>TypeError\<close> leaves \<open>connect\<close>.\<close>

lemma send_private_key_without_packet:
  "state this = SEND_PRIVATE_KEY \<Longrightarrow>
     connect_loop this JUndefined
       = Thrown (TypeError ''Cannot read property 'data' of undefined'') this"
  by (simp add: connect_loop.simps [of this] step_def fsm_states)

text \<open>The body of the loop, state by state.\<close>

lemma step_NOT_CONNECTED:
  "state this = NOT_CONNECTED \<Longrightarrow>
   step this packet =
       (case invoke InitConnection (device this) of
          (None, d) \<Rightarrow> Blocked (this\<lparr>device := d\<rparr>)
        | (Some (Reject e), d) \<Rightarrow> Raised e (this\<lparr>device := d\<rparr>)
        | (Some (Resolve v), d) \<Rightarrow> Next (this\<lparr>state := WAIT_FOR_AUTH, device := d\<rparr>) packet)"
  by (simp add: step_def fsm_states)

lemma step_WAIT_FOR_AUTH:
  "state this = WAIT_FOR_AUTH \<Longrightarrow>
   step this packet =
       (case invoke WaitForAuth (device this) of
          (None, d) \<Rightarrow> Blocked (this\<lparr>device := d\<rparr>)
        | (Some (Resolve v), d) \<Rightarrow>
            if v = JBool False then Next (this\<lparr>state := NOT_CONNECTED, device := d\<rparr>) v
            else Next (this\<lparr>state := SEND_PRIVATE_KEY, device := d\<rparr>) v
        | (Some (Reject e), d) \<Rightarrow>
            if errno e = Some 2 then Next (this\<lparr>state := NOT_CONNECTED, device := d\<rparr>) packet
            else Raised e (this\<lparr>device := d\<rparr>))"
  by (simp add: step_def fsm_states)

lemma step_SEND_PRIVATE_KEY:
  "state this = SEND_PRIVATE_KEY \<Longrightarrow>
   step this packet =
       (case get_data packet of
          Inl e \<Rightarrow>
            if errno e = Some 2 then Next (this\<lparr>state := NOT_CONNECTED\<rparr>) packet
            else Raised e this
        | Inr token \<Rightarrow>
            (case invoke (SendSignedToken token) (device this) of
               (None, d) \<Rightarrow> Blocked (this\<lparr>device := d\<rparr>)
             | (Some (Resolve v), d) \<Rightarrow>
                 if truthy v then Next (this\<lparr>state := CONNECTED, device := d\<rparr>) packet
                 else Next (this\<lparr>state := SEND_PUBLIC_KEY, device := d\<rparr>) packet
             | (Some (Reject e), d) \<Rightarrow>
                 if errno e = Some 2 then Next (this\<lparr>state := NOT_CONNECTED, device := d\<rparr>) packet
                 else Raised e (this\<lparr>device := d\<rparr>)))"
  by (simp add: step_def fsm_states)

lemma step_SEND_PUBLIC_KEY:
  "state this = SEND_PUBLIC_KEY \<Longrightarrow>
   step this packet =
       (case invoke SendPublicKey (device this) of
          (None, d) \<Rightarrow> Blocked (this\<lparr>device := d\<rparr>)
        | (Some (Resolve v), d) \<Rightarrow>
            if truthy v then Next (this\<lparr>state := CONNECTED, device := d\<rparr>) packet
            else Next (this\<lparr>state := NOT_CONNECTED, device := d\<rparr>) packet
        | (Some (Reject e), d) \<Rightarrow>
            if errno e = Some 2 then Next (this\<lparr>state := NOT_CONNECTED, device := d\<rparr>) packet
            else Raised e (this\<lparr>device := d\<rparr>))"
  by (simp add: step_def fsm_states)

lemma send_private_key_Next:
  assumes "state this = SEND_PRIVATE_KEY" and "step this packet = Next this' packet'"
  shows "state this' = CONNECTED \<or> state this' = SEND_PUBLIC_KEY
         \<or> (state this' = NOT_CONNECTED
             \<and> (\<exists>e more. script (device this) = Reject e # more \<and> errno e = Some 2))"
  using assms(2) unfolding step_SEND_PRIVATE_KEY [OF assms(1)]
  by (auto simp: invoke_def
      split: if_splits list.splits sum.splits outcome.splits dest: get_data_errno)

lemma wait_for_auth_Next:
  assumes "state this = WAIT_FOR_AUTH" and "step this packet = Next this' packet'"
  shows "state this' = NOT_CONNECTED \<or> state this' = SEND_PRIVATE_KEY"
  using assms(2) unfolding step_WAIT_FOR_AUTH [OF assms(1)]
  by (auto simp: invoke_def split: if_splits list.splits outcome.splits)

section \<open>The connection state machine\<close>

text \<open>
  Claim C10. Whenever \<open>connect\<close> returns normally, the state of the object is
  \<open>CONNECTED\<close>: the only \<open>return\<close> of the loop is in the \<open>CONNECTED\<close> case, and every other
  state value, an unrecognised one included, ends its iteration by going round the loop
  again, throwing, or waiting.
\<close>

theorem connect_returns_only_connected:
  assumes "connect this = Returned u this'"
  shows "state this' = CONNECTED
         \<and> (\<forall>that packet. state that \<noteq> CONNECTED \<longrightarrow> (\<forall>that'. step that packet \<noteq> Done that'))
         \<and> (\<forall>that packet. \<not> known (state that) \<longrightarrow>
               step that packet = Next (that\<lparr>state := NOT_CONNECTED\<rparr>) packet)"
proof -
  from assms have "state this' = CONNECTED"
    unfolding connect_def by (rule connect_loop_Returned)
  then show ?thesis
    by (simp add: step_Done step_unknown)
qed

text \<open>
  A run that starts from the unrecognised state value 7 and is then challenged, signs the
  token and is accepted.
\<close>

theorem connect_returns_only_connected_witness:
  "connect (mocked 7 [Resolve JUndefined, Resolve (JPacket token_packet), Resolve (JBool True)])
     = Returned ()
         \<lparr>state = CONNECTED,
          device = \<lparr>script = [],
                    calls = [(InitConnection, Some (Resolve JUndefined)),
                             (WaitForAuth, Some (Resolve (JPacket token_packet))),
                             (SendSignedToken (JString ''token''), Some (Resolve (JBool True)))]\<rparr>\<rparr>
   \<and> state \<lparr>state = CONNECTED,
          device = \<lparr>script = [],
                    calls = [(InitConnection, Some (Resolve JUndefined)),
                             (WaitForAuth, Some (Resolve (JPacket token_packet))),
                             (SendSignedToken (JString ''token''), Some (Resolve (JBool True)))]\<rparr>\<rparr>
       = CONNECTED"
proof -
  let ?adb = "mocked 7 [Resolve JUndefined, Resolve (JPacket token_packet), Resolve (JBool True)]"
  let ?final = "\<lparr>state = CONNECTED,
          device = \<lparr>script = [],
                    calls = [(InitConnection, Some (Resolve JUndefined)),
                             (WaitForAuth, Some (Resolve (JPacket token_packet))),
                             (SendSignedToken (JString ''token''), Some (Resolve (JBool True)))]\<rparr>\<rparr>"
  have returned: "connect ?adb = Returned () ?final"
    by (simp add: run_connect token_packet_def)
  from connect_returns_only_connected [OF returned] returned show ?thesis
    by simp
qed


text \<open>
  Claim C5. A timeout (\<open>errno = 2\<close>) of the device call made in \<open>WAIT_FOR_AUTH\<close> or in
  \<open>SEND_PRIVATE_KEY\<close> puts the machine back to \<open>NOT_CONNECTED\<close> and the loop goes on; an error
  that is not a timeout, raised by the device call of any of the four connecting states,
  leaves \<open>connect\<close> as that same error, with the state as it was.
\<close>

theorem timeouts_reset_other_errors_propagate:
  assumes "script (device this) = Reject e # rest"
    and "state this = SEND_PRIVATE_KEY \<longrightarrow> packet \<noteq> JUndefined"
  shows "(errno e = Some 2 \<and> (state this = WAIT_FOR_AUTH \<or> state this = SEND_PRIVATE_KEY) \<longrightarrow>
            (\<exists>this'. step this packet = Next this' packet \<and> state this' = NOT_CONNECTED
                      \<and> script (device this') = rest))
       \<and> (errno e \<noteq> Some 2 \<and> (state this = NOT_CONNECTED \<or> state this = WAIT_FOR_AUTH
              \<or> state this = SEND_PRIVATE_KEY \<or> state this = SEND_PUBLIC_KEY) \<longrightarrow>
            (\<exists>this'. connect_loop this packet = Thrown e this' \<and> state this' = state this
                      \<and> script (device this') = rest))"
proof (intro conjI impI)
  assume timeout: "errno e = Some 2 \<and> (state this = WAIT_FOR_AUTH \<or> state this = SEND_PRIVATE_KEY)"
  then have "state this \<noteq> NOT_CONNECTED"
    by (auto simp: fsm_states)
  with timeout step_Reject [OF assms]
  show "\<exists>this'. step this packet = Next this' packet \<and> state this' = NOT_CONNECTED
                \<and> script (device this') = rest"
    by auto
next
  assume other: "errno e \<noteq> Some 2 \<and> (state this = NOT_CONNECTED \<or> state this = WAIT_FOR_AUTH
                  \<or> state this = SEND_PRIVATE_KEY \<or> state this = SEND_PUBLIC_KEY)"
  with step_Reject [OF assms] obtain c where
    "step this packet = Raised e (this\<lparr>device := (device this)\<lparr>script := rest,
        calls := calls (device this) @ [(c, Some (Reject e))]\<rparr>\<rparr>)"
    by auto
  then have "connect_loop this packet = Thrown e (this\<lparr>device := (device this)\<lparr>script := rest,
        calls := calls (device this) @ [(c, Some (Reject e))]\<rparr>\<rparr>)"
    by (rule connect_loop_Raised)
  then show "\<exists>this'. connect_loop this packet = Thrown e this' \<and> state this' = state this
                \<and> script (device this') = rest"
    by simp
qed

text \<open>
  A timeout while waiting for the challenge, and a disconnected transport (\<open>errno = 4\<close>)
  while the signed token is being sent.
\<close>

theorem timeouts_reset_other_errors_propagate_witness:
  "step (mocked WAIT_FOR_AUTH [Reject (TransferError 2)]) JUndefined
     = Next \<lparr>state = NOT_CONNECTED,
             device = \<lparr>script = [], calls = [(WaitForAuth, Some (Reject (TransferError 2)))]\<rparr>\<rparr>
         JUndefined
   \<and> connect_loop (mocked SEND_PRIVATE_KEY [Reject (TransferError 4)]) (JPacket token_packet)
     = Thrown (TransferError 4)
         \<lparr>state = SEND_PRIVATE_KEY,
          device = \<lparr>script = [],
                    calls = [(SendSignedToken (JString ''token''),
                              Some (Reject (TransferError 4)))]\<rparr>\<rparr>"
proof -
  let ?waiting = "mocked WAIT_FOR_AUTH [Reject (TransferError 2)]"
  let ?signing = "mocked SEND_PRIVATE_KEY [Reject (TransferError 4)]"
  have w1: "script (device ?waiting) = Reject (TransferError 2) # []"
    by (simp add: mocked_def)
  have w2: "state ?waiting = SEND_PRIVATE_KEY \<longrightarrow> JUndefined \<noteq> JUndefined"
    by (simp add: mocked_def fsm_states)
  have s1: "script (device ?signing) = Reject (TransferError 4) # []"
    by (simp add: mocked_def)
  have s2: "state ?signing = SEND_PRIVATE_KEY \<longrightarrow> JPacket token_packet \<noteq> JUndefined"
    by simp
  from timeouts_reset_other_errors_propagate [OF w1 w2]
       timeouts_reset_other_errors_propagate [OF s1 s2]
  show ?thesis
    by (simp add: run_connect token_packet_def)
qed


text \<open>
  Claim C4. In \<open>SEND_PRIVATE_KEY\<close> the token is sent signed; when \<open>sendSignedToken\<close> resolves
  with a true value the machine goes to \<open>CONNECTED\<close>, and when it resolves with a false value
  (the signature was rejected) to \<open>SEND_PUBLIC_KEY\<close>. An iteration that starts in
  \<open>SEND_PRIVATE_KEY\<close> reaches no other state, except \<open>NOT_CONNECTED\<close> after a timeout.
\<close>

theorem send_private_key_successors:
  assumes "state this = SEND_PRIVATE_KEY"
    and "get_data packet = Inr token"
    and "script (device this) = Resolve v # rest"
  shows "step this packet =
           Next (this\<lparr>state := (if truthy v then CONNECTED else SEND_PUBLIC_KEY),
                  device := (device this)\<lparr>script := rest,
                    calls := calls (device this) @ [(SendSignedToken token, Some (Resolve v))]\<rparr>\<rparr>)
             packet
         \<and> (\<forall>that that' packet' packet''.
               state that = SEND_PRIVATE_KEY \<and> step that packet' = Next that' packet'' \<longrightarrow>
                 state that' = CONNECTED \<or> state that' = SEND_PUBLIC_KEY
                 \<or> (state that' = NOT_CONNECTED
                     \<and> (\<exists>e more. script (device that) = Reject e # more \<and> errno e = Some 2)))"
proof
  from assms(2,3) show "step this packet =
           Next (this\<lparr>state := (if truthy v then CONNECTED else SEND_PUBLIC_KEY),
                  device := (device this)\<lparr>script := rest,
                    calls := calls (device this) @ [(SendSignedToken token, Some (Resolve v))]\<rparr>\<rparr>)
             packet"
    by (simp add: step_SEND_PRIVATE_KEY [OF assms(1)] invoke_def)
next
  show "\<forall>that that' packet' packet''.
               state that = SEND_PRIVATE_KEY \<and> step that packet' = Next that' packet'' \<longrightarrow>
                 state that' = CONNECTED \<or> state that' = SEND_PUBLIC_KEY
                 \<or> (state that' = NOT_CONNECTED
                     \<and> (\<exists>e more. script (device that) = Reject e # more \<and> errno e = Some 2))"
    using send_private_key_Next by blast
qed

text \<open>The signature is rejected once and accepted once.\<close>

theorem send_private_key_successors_witness:
  "step (mocked SEND_PRIVATE_KEY [Resolve (JBool False)]) (JPacket token_packet)
     = Next \<lparr>state = SEND_PUBLIC_KEY,
             device = \<lparr>script = [],
                       calls = [(SendSignedToken (JString ''token''),
                                 Some (Resolve (JBool False)))]\<rparr>\<rparr>
         (JPacket token_packet)
   \<and> step (mocked SEND_PRIVATE_KEY [Resolve (JBool True)]) (JPacket token_packet)
     = Next \<lparr>state = CONNECTED,
             device = \<lparr>script = [],
                       calls = [(SendSignedToken (JString ''token''),
                                 Some (Resolve (JBool True)))]\<rparr>\<rparr>
         (JPacket token_packet)"
proof -
  have st: "state (mocked SEND_PRIVATE_KEY outcomes) = SEND_PRIVATE_KEY" for outcomes
    by (simp add: mocked_def)
  have tok: "get_data (JPacket token_packet) = Inr (JString ''token'')"
    by (simp add: token_packet_def)
  have sc: "script (device (mocked SEND_PRIVATE_KEY [Resolve r])) = Resolve r # []" for r
    by (simp add: mocked_def)
  from send_private_key_successors [OF st tok sc, of "JBool False"]
       send_private_key_successors [OF st tok sc, of "JBool True"]
  show ?thesis
    by (simp add: mocked_def)
qed


text \<open>
  Claim C2, as amended. In \<open>WAIT_FOR_AUTH\<close> the machine never goes directly to \<open>CONNECTED\<close>:
  when \<open>waitForAuth\<close> resolves with \<open>false\<close> the machine returns to \<open>NOT_CONNECTED\<close>, and when
  it resolves with anything else, a CNXN packet included, the machine goes to
  \<open>SEND_PRIVATE_KEY\<close> and keeps the value as the packet whose data it will sign.
\<close>

theorem wait_for_auth_successors:
  assumes "state this = WAIT_FOR_AUTH"
    and "script (device this) = Resolve v # rest"
  shows "step this packet =
           Next (this\<lparr>state := (if v = JBool False then NOT_CONNECTED else SEND_PRIVATE_KEY),
                  device := (device this)\<lparr>script := rest,
                    calls := calls (device this) @ [(WaitForAuth, Some (Resolve v))]\<rparr>\<rparr>)
             v
         \<and> (\<forall>that that' packet' packet''.
               state that = WAIT_FOR_AUTH \<and> step that packet' = Next that' packet'' \<longrightarrow>
                 state that' = NOT_CONNECTED \<or> state that' = SEND_PRIVATE_KEY)
         \<and> NOT_CONNECTED \<noteq> CONNECTED \<and> SEND_PRIVATE_KEY \<noteq> CONNECTED"
proof (intro conjI)
  from assms(2) show "step this packet =
           Next (this\<lparr>state := (if v = JBool False then NOT_CONNECTED else SEND_PRIVATE_KEY),
                  device := (device this)\<lparr>script := rest,
                    calls := calls (device this) @ [(WaitForAuth, Some (Resolve v))]\<rparr>\<rparr>)
             v"
    by (simp add: step_WAIT_FOR_AUTH [OF assms(1)] invoke_def)
next
  show "\<forall>that that' packet' packet''.
               state that = WAIT_FOR_AUTH \<and> step that packet' = Next that' packet'' \<longrightarrow>
                 state that' = NOT_CONNECTED \<or> state that' = SEND_PRIVATE_KEY"
    using wait_for_auth_Next by blast
next
  show "NOT_CONNECTED \<noteq> CONNECTED"
    by (simp add: fsm_states)
next
  show "SEND_PRIVATE_KEY \<noteq> CONNECTED"
    by (simp add: fsm_states)
qed

text \<open>The challenge arrives; and \<open>waitForAuth\<close> reports \<open>false\<close>.\<close>

theorem wait_for_auth_successors_witness:
  "step (mocked WAIT_FOR_AUTH [Resolve (JPacket token_packet)]) JUndefined
     = Next \<lparr>state = SEND_PRIVATE_KEY,
             device = \<lparr>script = [],
                       calls = [(WaitForAuth, Some (Resolve (JPacket token_packet)))]\<rparr>\<rparr>
         (JPacket token_packet)
   \<and> step (mocked WAIT_FOR_AUTH [Resolve (JBool False)]) JUndefined
     = Next \<lparr>state = NOT_CONNECTED,
             device = \<lparr>script = [],
                       calls = [(WaitForAuth, Some (Resolve (JBool False)))]\<rparr>\<rparr>
         (JBool False)"
proof -
  have st: "state (mocked WAIT_FOR_AUTH outcomes) = WAIT_FOR_AUTH" for outcomes
    by (simp add: mocked_def)
  have sc: "script (device (mocked WAIT_FOR_AUTH [Resolve r])) = Resolve r # []" for r
    by (simp add: mocked_def)
  from wait_for_auth_successors [OF st sc, of "JPacket token_packet" JUndefined]
       wait_for_auth_successors [OF st sc, of "JBool False" JUndefined]
  show ?thesis
    by (simp add: mocked_def)
qed

text \<open>
  Against claim C2 as first stated: a CNXN received in \<open>WAIT_FOR_AUTH\<close> does not take the
  machine to \<open>CONNECTED\<close>. If \<open>waitForAuth\<close> hands the CNXN packet over, the next state is
  \<open>SEND_PRIVATE_KEY\<close>, and a whole run of \<open>connect\<close> then signs the banner of the device as if
  it were a token; if \<open>waitForAuth\<close> reports \<open>false\<close>, the next state is \<open>NOT_CONNECTED\<close>.
\<close>

theorem wait_for_auth_cnxn_counterexample:
  "step (mocked WAIT_FOR_AUTH [Resolve (JPacket cnxn_packet)]) JUndefined
     = Next \<lparr>state = SEND_PRIVATE_KEY,
             device = \<lparr>script = [],
                       calls = [(WaitForAuth, Some (Resolve (JPacket cnxn_packet)))]\<rparr>\<rparr>
         (JPacket cnxn_packet)
   \<and> step (mocked WAIT_FOR_AUTH [Resolve (JBool False)]) JUndefined
     = Next \<lparr>state = NOT_CONNECTED,
             device = \<lparr>script = [],
                       calls = [(WaitForAuth, Some (Resolve (JBool False)))]\<rparr>\<rparr>
         (JBool False)
   \<and> SEND_PRIVATE_KEY \<noteq> CONNECTED \<and> NOT_CONNECTED \<noteq> CONNECTED
   \<and> command cnxn_packet = CMD_CNXN
   \<and> connect (mocked NOT_CONNECTED
        [Resolve JUndefined, Resolve (JPacket cnxn_packet), Resolve (JBool True)])
     = Returned ()
         \<lparr>state = CONNECTED,
          device = \<lparr>script = [],
                    calls = [(InitConnection, Some (Resolve JUndefined)),
                             (WaitForAuth, Some (Resolve (JPacket cnxn_packet))),
                             (SendSignedToken (JString ''device::''),
                              Some (Resolve (JBool True)))]\<rparr>\<rparr>"
  by (simp add: run_connect cnxn_packet_def)

text \<open>
  Claim C1, as amended. A timeout (\<open>errno = 2\<close>) of \<open>sendPublicKey\<close> in \<open>SEND_PUBLIC_KEY\<close> is
  not surfaced: the machine is put back to \<open>NOT_CONNECTED\<close> and \<open>connect\<close> goes on exactly as
  a \<open>connect\<close> from \<open>NOT_CONNECTED\<close> would on what the device does next.
\<close>

theorem send_public_key_timeout_retries:
  assumes "state this = SEND_PUBLIC_KEY"
    and "script (device this) = Reject e # rest"
    and "errno e = Some 2"
  shows "step this packet =
           Next (this\<lparr>state := NOT_CONNECTED,
                  device := (device this)\<lparr>script := rest,
                    calls := calls (device this) @ [(SendPublicKey, Some (Reject e))]\<rparr>\<rparr>)
             packet
         \<and> connect_loop this packet =
             connect_loop (this\<lparr>state := NOT_CONNECTED,
                  device := (device this)\<lparr>script := rest,
                    calls := calls (device this) @ [(SendPublicKey, Some (Reject e))]\<rparr>\<rparr>)
               packet"
proof -
  from assms(2,3) have "step this packet =
           Next (this\<lparr>state := NOT_CONNECTED,
                  device := (device this)\<lparr>script := rest,
                    calls := calls (device this) @ [(SendPublicKey, Some (Reject e))]\<rparr>\<rparr>)
             packet"
    by (simp add: step_SEND_PUBLIC_KEY [OF assms(1)] invoke_def)
  then show ?thesis
    by (simp add: connect_loop_Next)
qed

text \<open>The user has not approved the key yet, and the device says nothing more.\<close>

theorem send_public_key_timeout_retries_witness:
  "step (mocked SEND_PUBLIC_KEY [Reject (TransferError 2)]) JUndefined
     = Next \<lparr>state = NOT_CONNECTED,
             device = \<lparr>script = [],
                       calls = [(SendPublicKey, Some (Reject (TransferError 2)))]\<rparr>\<rparr>
         JUndefined
   \<and> connect_loop (mocked SEND_PUBLIC_KEY [Reject (TransferError 2)]) JUndefined
     = Pending \<lparr>state = NOT_CONNECTED,
                device = \<lparr>script = [],
                          calls = [(SendPublicKey, Some (Reject (TransferError 2))),
                                   (InitConnection, None)]\<rparr>\<rparr>"
proof -
  let ?adb = "mocked SEND_PUBLIC_KEY [Reject (TransferError 2)]"
  have st: "state ?adb = SEND_PUBLIC_KEY"
    by (simp add: mocked_def)
  have sc: "script (device ?adb) = Reject (TransferError 2) # []"
    by (simp add: mocked_def)
  have er: "errno (TransferError 2) = Some 2"
    by simp
  from send_public_key_timeout_retries [OF st sc er, of JUndefined]
  show ?thesis
    by (simp add: run_connect)
qed

text \<open>
  Against claim C1 as first stated: the signature is rejected, the public key is sent, the
  receive times out, and \<open>connect\<close> starts the handshake again without telling its caller;
  here the second round is accepted and \<open>connect\<close> returns normally.
\<close>

theorem send_public_key_timeout_counterexample:
  "connect (mocked NOT_CONNECTED
      [Resolve JUndefined, Resolve (JPacket token_packet), Resolve (JBool False),
       Reject (TransferError 2),
       Resolve JUndefined, Resolve (JPacket token_packet), Resolve (JBool True)])
     = Returned ()
         \<lparr>state = CONNECTED,
          device = \<lparr>script = [],
                    calls = [(InitConnection, Some (Resolve JUndefined)),
                             (WaitForAuth, Some (Resolve (JPacket token_packet))),
                             (SendSignedToken (JString ''token''), Some (Resolve (JBool False))),
                             (SendPublicKey, Some (Reject (TransferError 2))),
                             (InitConnection, Some (Resolve JUndefined)),
                             (WaitForAuth, Some (Resolve (JPacket token_packet))),
                             (SendSignedToken (JString ''token''),
                              Some (Resolve (JBool True)))]\<rparr>\<rparr>
   \<and> errno (TransferError 2) = Some 2"
  by (simp add: run_connect token_packet_def)


section \<open>Commands\<close>

text \<open>
  Claim C7. \<open>runCommand\<close> calls \<open>open(command)\<close> on the device if and only if the state is
  \<open>CONNECTED\<close>. In every other state it throws its own error and leaves the object, the
  device and its record of calls included, as it was. The state is never changed.
\<close>

theorem runCommand_only_when_connected:
  "((\<exists>r. calls (device (final (runCommand this cmd))) = calls (device this) @ [(Open cmd, r)])
      \<longleftrightarrow> state this = CONNECTED)
   \<and> (state this \<noteq> CONNECTED \<longrightarrow>
        runCommand this cmd
          = Thrown (Error ''State is not CONNECTED, cannot run a command.'') this)
   \<and> state (final (runCommand this cmd)) = state this"
  by (auto simp: runCommand_def invoke_def split: list.splits outcome.splits)

text \<open>A shell command on a connected object, and on one that still waits for the challenge.\<close>

theorem runCommand_only_when_connected_witness:
  "runCommand (mocked CONNECTED [Resolve (JString ''hello'')]) (Shell ''echo hello'' False)
     = Returned (JString ''hello'')
         \<lparr>state = CONNECTED,
          device = \<lparr>script = [],
                    calls = [(Open (Shell ''echo hello'' False),
                              Some (Resolve (JString ''hello'')))]\<rparr>\<rparr>
   \<and> runCommand (mocked WAIT_FOR_AUTH [Resolve (JString ''hello'')]) (Shell ''echo hello'' False)
     = Thrown (Error ''State is not CONNECTED, cannot run a command.'')
         \<lparr>state = WAIT_FOR_AUTH,
          device = \<lparr>script = [Resolve (JString ''hello'')], calls = []\<rparr>\<rparr>"
proof -
  have waiting: "state (mocked WAIT_FOR_AUTH [Resolve (JString ''hello'')]) \<noteq> CONNECTED"
    by (simp add: mocked_def fsm_states)
  from runCommand_only_when_connected
         [of "mocked WAIT_FOR_AUTH [Resolve (JString ''hello'')]" "Shell ''echo hello'' False"]
       waiting
  have "runCommand (mocked WAIT_FOR_AUTH [Resolve (JString ''hello'')]) (Shell ''echo hello'' False)
          = Thrown (Error ''State is not CONNECTED, cannot run a command.'')
              (mocked WAIT_FOR_AUTH [Resolve (JString ''hello'')])"
    by blast
  then show ?thesis
    by (simp add: mocked_def runCommand_def invoke_def)
qed

section \<open>Finding ADB devices\<close>

lemma searchInterfaces_Some:
  "searchInterfaces ifaces = Some iface \<Longrightarrow>
     iface \<in> set ifaces \<and> length (endpoints iface) = 2
     \<and> bInterfaceClass (descriptor iface) = ADB_CLASS
     \<and> bInterfaceSubClass (descriptor iface) = ADB_SUBCLASS
     \<and> bInterfaceProtocol (descriptor iface) = ADB_PROTOCOL"
  by (induction ifaces) (auto split: if_splits)

lemma searchInterfaces_None:
  "searchInterfaces ifaces = None \<longleftrightarrow>
     (\<forall>iface \<in> set ifaces.
        \<not> (length (endpoints iface) = 2
           \<and> bInterfaceClass (descriptor iface) = ADB_CLASS
           \<and> bInterfaceSubClass (descriptor iface) = ADB_SUBCLASS
           \<and> bInterfaceProtocol (descriptor iface) = ADB_PROTOCOL))"
  by (induction ifaces) auto

text \<open>
  Claim C8. For every device, an interface that \<open>_getAdbInterface\<close> returns is one of the
  device's interfaces, has exactly two endpoints, and has class \<open>0xFF\<close>, subclass \<open>0x42\<close> and
  protocol \<open>0x01\<close> in its descriptor; if no interface of the device is such, the result is
  \<open>null\<close>.
\<close>

theorem getAdbInterface_filter:
  "(\<forall>iface. snd (getAdbInterface dev) = Some iface \<longrightarrow>
        (\<exists>ifaces. interfaces dev = Some ifaces \<and> iface \<in> set ifaces)
        \<and> length (endpoints iface) = 2
        \<and> bInterfaceClass (descriptor iface) = 0xFF
        \<and> bInterfaceSubClass (descriptor iface) = 0x42
        \<and> bInterfaceProtocol (descriptor iface) = 0x01)
   \<and> ((\<forall>ifaces iface. interfaces dev = Some ifaces \<and> iface \<in> set ifaces \<longrightarrow>
          \<not> (length (endpoints iface) = 2
             \<and> bInterfaceClass (descriptor iface) = 0xFF
             \<and> bInterfaceSubClass (descriptor iface) = 0x42
             \<and> bInterfaceProtocol (descriptor iface) = 0x01))
        \<longrightarrow> snd (getAdbInterface dev) = None)"
proof (intro conjI allI impI)
  fix iface
  assume found: "snd (getAdbInterface dev) = Some iface"
  then obtain ifaces where ifaces: "interfaces dev = Some ifaces"
    and search: "searchInterfaces ifaces = Some iface"
    by (auto simp: getAdbInterface_def split: option.splits if_splits)
  from searchInterfaces_Some [OF search] ifaces
  show "\<exists>ifaces. interfaces dev = Some ifaces \<and> iface \<in> set ifaces"
    and "length (endpoints iface) = 2"
    and "bInterfaceClass (descriptor iface) = 0xFF"
    and "bInterfaceSubClass (descriptor iface) = 0x42"
    and "bInterfaceProtocol (descriptor iface) = 0x01"
    by (simp_all add: ADB_CLASS_def ADB_SUBCLASS_def ADB_PROTOCOL_def)
next
  assume none: "\<forall>ifaces iface. interfaces dev = Some ifaces \<and> iface \<in> set ifaces \<longrightarrow>
          \<not> (length (endpoints iface) = 2
             \<and> bInterfaceClass (descriptor iface) = 0xFF
             \<and> bInterfaceSubClass (descriptor iface) = 0x42
             \<and> bInterfaceProtocol (descriptor iface) = 0x01)"
  show "snd (getAdbInterface dev) = None"
  proof (cases "interfaces dev")
    case None
    then show ?thesis by (simp add: getAdbInterface_def)
  next
    case (Some ifaces)
    with none have "searchInterfaces ifaces = None"
      unfolding searchInterfaces_None
      by (simp add: ADB_CLASS_def ADB_SUBCLASS_def ADB_PROTOCOL_def)
    with Some show ?thesis by (simp add: getAdbInterface_def)
  qed
qed

text \<open>The phone's second interface is returned; the camera has none to return.\<close>

theorem getAdbInterface_filter_witness:
  "getAdbInterface phone = ([OpenDevice phone], Some adb_iface)
   \<and> length (endpoints adb_iface) = 2
   \<and> bInterfaceClass (descriptor adb_iface) = 0xFF
   \<and> bInterfaceSubClass (descriptor adb_iface) = 0x42
   \<and> bInterfaceProtocol (descriptor adb_iface) = 0x01
   \<and> getAdbInterface camera = ([OpenDevice camera], None)"
proof -
  have found: "snd (getAdbInterface phone) = Some adb_iface"
    by (simp add: getAdbInterface_def phone_def adb_iface_def storage_iface_def
        ADB_CLASS_def ADB_SUBCLASS_def ADB_PROTOCOL_def)
  have none: "\<forall>ifaces iface. interfaces camera = Some ifaces \<and> iface \<in> set ifaces \<longrightarrow>
          \<not> (length (endpoints iface) = 2
             \<and> bInterfaceClass (descriptor iface) = 0xFF
             \<and> bInterfaceSubClass (descriptor iface) = 0x42
             \<and> bInterfaceProtocol (descriptor iface) = 0x01)"
    by (simp add: camera_def storage_iface_def)
  from getAdbInterface_filter [of phone] found
  have "length (endpoints adb_iface) = 2
   \<and> bInterfaceClass (descriptor adb_iface) = 0xFF
   \<and> bInterfaceSubClass (descriptor adb_iface) = 0x42
   \<and> bInterfaceProtocol (descriptor adb_iface) = 0x01"
    by blast
  moreover from getAdbInterface_filter [of camera] none
  have "snd (getAdbInterface camera) = None"
    by blast
  ultimately show ?thesis
    using found by (simp add: getAdbInterface_def)
qed


lemma getAdbInterface_ops: "getAdbInterface dev = (ops, r) \<Longrightarrow> ops = [OpenDevice dev]"
  by (auto simp: getAdbInterface_def)

lemma getSerialNo_ops:
  "getSerialNo dev = (ops, r) \<Longrightarrow> op \<in> set ops \<Longrightarrow> op_device op = dev"
  by (auto simp: getSerialNo_def Let_def split: option.splits sum.splits)

text \<open>Every operation of the loop is on a device whose vendor id is in the table.\<close>

lemma scanDevices_ops:
  assumes "op \<in> set (fst (scanDevices vendors devs adbDevices ops))"
  shows "op \<in> set ops
         \<or> (\<exists>dd. deviceDescriptor (op_device op) = Some dd \<and> idVendor dd \<in> set vendors)"
  using assms
proof (induction devs arbitrary: adbDevices ops)
  case Nil
  then show ?case by simp
next
  case (Cons dev rest)
  show ?case
  proof (cases "deviceDescriptor dev")
    case None
    with Cons.prems show ?thesis by simp
  next
    case (Some dd)
    show ?thesis
    proof (cases "idVendor dd \<in> set vendors")
      case False
      with Some Cons.prems have "op \<in> set (fst (scanDevices vendors rest adbDevices ops))"
        by simp
      then show ?thesis by (rule Cons.IH)
    next
      case True
      obtain ops1 r1 where probe: "getAdbInterface dev = (ops1, r1)"
        by (cases "getAdbInterface dev")
      then have ops1: "ops1 = [OpenDevice dev]"
        by (rule getAdbInterface_ops)
      obtain ops2 r2 where serial: "getSerialNo dev = (ops2, r2)"
        by (cases "getSerialNo dev")
      have here: "\<exists>dd. deviceDescriptor (op_device x) = Some dd \<and> idVendor dd \<in> set vendors"
        if "x \<in> set (ops1 @ ops2)" for x
        using that Some True ops1 getSerialNo_ops [OF serial] by auto
      show ?thesis
      proof (cases r1)
        case None
        with Some True probe Cons.prems
        have "op \<in> set (fst (scanDevices vendors rest adbDevices (ops @ ops1)))"
          by simp
        from Cons.IH [OF this] here show ?thesis by auto
      next
        case found: (Some deviceInterface)
        show ?thesis
        proof (cases r2)
          case (Inl e)
          with Some True probe found serial Cons.prems have "op \<in> set (ops @ ops1 @ ops2)"
            by simp
          with here show ?thesis by auto
        next
          case (Inr serialNumber)
          with Some True probe found serial Cons.prems
          have "op \<in> set (fst (scanDevices vendors rest
                  (adbDevices @ [AdbEntry dev deviceInterface serialNumber]) (ops @ ops1 @ ops2)))"
            by simp
          from Cons.IH [OF this] here show ?thesis by auto
        qed
      qed
    qed
  qed
qed

text \<open>With no listed device that shows an ADB interface, the array is left as it was.\<close>

lemma scanDevices_nothing:
  assumes "\<forall>dev \<in> set devs.
             \<not> ((\<exists>dd. deviceDescriptor dev = Some dd \<and> idVendor dd \<in> set vendors)
                \<and> snd (getAdbInterface dev) \<noteq> None)"
  shows "(snd (scanDevices vendors devs adbDevices ops) = Inr adbDevices
          \<or> (\<exists>m. snd (scanDevices vendors devs adbDevices ops) = Inl (TypeError m)))
         \<and> ((\<forall>dev \<in> set devs. deviceDescriptor dev \<noteq> None) \<longrightarrow>
              snd (scanDevices vendors devs adbDevices ops) = Inr adbDevices)"
  using assms
proof (induction devs arbitrary: ops)
  case Nil
  then show ?case by simp
next
  case (Cons dev rest)
  from Cons.prems have rest: "\<forall>dev \<in> set rest.
             \<not> ((\<exists>dd. deviceDescriptor dev = Some dd \<and> idVendor dd \<in> set vendors)
                \<and> snd (getAdbInterface dev) \<noteq> None)"
    by simp
  note IH = Cons.IH [OF rest]
  show ?case
  proof (cases "deviceDescriptor dev")
    case None
    then show ?thesis by simp
  next
    case (Some dd)
    show ?thesis
    proof (cases "idVendor dd \<in> set vendors")
      case False
      with Some IH [of ops] show ?thesis by simp
    next
      case True
      with Some Cons.prems have "snd (getAdbInterface dev) = None"
        by simp
      then obtain ops1 where "getAdbInterface dev = (ops1, None)"
        by (cases "getAdbInterface dev") simp
      with Some True IH [of "ops @ ops1"] show ?thesis by simp
    qed
  qed
qed

text \<open>
  Claim C9. \<open>findAdbDevices\<close> throws \<open>No USB devices found.\<close> when the device list is
  empty. When no device of a non-empty list both has a listed vendor id and shows an ADB
  interface, it throws as well, and the error is \<open>No ADB devices found.\<close> whenever every
  device has a device descriptor to read the vendor id from. Every operation it performs is
  on a device whose vendor id is in the list: the others are never opened.
\<close>

theorem findAdbDevices_failures:
  "(usbDevices = [] \<longrightarrow>
      findAdbDevices vendors usbDevices = ([], Inl (Error ''No USB devices found.'')))
   \<and> (usbDevices \<noteq> []
        \<and> (\<forall>dev \<in> set usbDevices.
              \<not> ((\<exists>dd. deviceDescriptor dev = Some dd \<and> idVendor dd \<in> set vendors)
                 \<and> snd (getAdbInterface dev) \<noteq> None)) \<longrightarrow>
        (\<exists>e. snd (findAdbDevices vendors usbDevices) = Inl e)
        \<and> ((\<forall>dev \<in> set usbDevices. deviceDescriptor dev \<noteq> None) \<longrightarrow>
             snd (findAdbDevices vendors usbDevices) = Inl (Error ''No ADB devices found.'')))
   \<and> (\<forall>op \<in> set (fst (findAdbDevices vendors usbDevices)).
        \<exists>dd. deviceDescriptor (op_device op) = Some dd \<and> idVendor dd \<in> set vendors)"
proof (intro conjI impI ballI)
  assume "usbDevices = []"
  then show "findAdbDevices vendors usbDevices = ([], Inl (Error ''No USB devices found.''))"
    by (simp add: findAdbDevices_def)
next
  assume none: "usbDevices \<noteq> []
        \<and> (\<forall>dev \<in> set usbDevices.
              \<not> ((\<exists>dd. deviceDescriptor dev = Some dd \<and> idVendor dd \<in> set vendors)
                 \<and> snd (getAdbInterface dev) \<noteq> None))"
  then have scan: "(snd (scanDevices vendors usbDevices [] []) = Inr []
          \<or> (\<exists>m. snd (scanDevices vendors usbDevices [] []) = Inl (TypeError m)))
         \<and> ((\<forall>dev \<in> set usbDevices. deviceDescriptor dev \<noteq> None) \<longrightarrow>
              snd (scanDevices vendors usbDevices [] []) = Inr [])"
    using scanDevices_nothing [of usbDevices vendors "[]" "[]"] by blast
  obtain ops r where run: "scanDevices vendors usbDevices [] [] = (ops, r)"
    by (cases "scanDevices vendors usbDevices [] []")
  from none scan run show "\<exists>e. snd (findAdbDevices vendors usbDevices) = Inl e"
    by (auto simp: findAdbDevices_def)
  from none scan run
  show "snd (findAdbDevices vendors usbDevices) = Inl (Error ''No ADB devices found.'')"
    if "\<forall>dev \<in> set usbDevices. deviceDescriptor dev \<noteq> None"
    using that by (auto simp: findAdbDevices_def)
next
  fix op
  assume "op \<in> set (fst (findAdbDevices vendors usbDevices))"
  then have "op \<in> set (fst (scanDevices vendors usbDevices [] []))"
    by (auto simp: findAdbDevices_def split: if_splits prod.splits sum.splits)
  from scanDevices_ops [OF this]
  show "\<exists>dd. deviceDescriptor (op_device op) = Some dd \<and> idVendor dd \<in> set vendors"
    by simp
qed


text \<open>
  No device at all; then a dongle of an unlisted vendor, which is skipped unopened although
  its interface looks like ADB, with a camera of a listed vendor, which is opened and has
  no ADB interface.
\<close>

theorem findAdbDevices_failures_witness:
  "findAdbDevices sample_vendors [] = ([], Inl (Error ''No USB devices found.''))
   \<and> findAdbDevices sample_vendors [dongle, camera]
       = ([OpenDevice camera], Inl (Error ''No ADB devices found.''))"
proof -
  have unmatched: "[dongle, camera] \<noteq> []
        \<and> (\<forall>dev \<in> set [dongle, camera].
              \<not> ((\<exists>dd. deviceDescriptor dev = Some dd \<and> idVendor dd \<in> set sample_vendors)
                 \<and> snd (getAdbInterface dev) \<noteq> None))"
    by (simp add: dongle_def camera_def sample_vendors_def getAdbInterface_def
        storage_iface_def ADB_CLASS_def ADB_SUBCLASS_def ADB_PROTOCOL_def)
  have described: "\<forall>dev \<in> set [dongle, camera]. deviceDescriptor dev \<noteq> None"
    by (simp add: dongle_def camera_def)
  from findAdbDevices_failures [of "[]" sample_vendors]
  have empty: "findAdbDevices sample_vendors [] = ([], Inl (Error ''No USB devices found.''))"
    by simp
  from findAdbDevices_failures [of "[dongle, camera]" sample_vendors] unmatched described
  have "snd (findAdbDevices sample_vendors [dongle, camera])
          = Inl (Error ''No ADB devices found.'')"
    by blast
  moreover have "fst (findAdbDevices sample_vendors [dongle, camera]) = [OpenDevice camera]"
    by (simp add: findAdbDevices_def dongle_def camera_def sample_vendors_def
        getAdbInterface_def storage_iface_def ADB_CLASS_def ADB_SUBCLASS_def ADB_PROTOCOL_def)
  ultimately have "findAdbDevices sample_vendors [dongle, camera]
       = ([OpenDevice camera], Inl (Error ''No ADB devices found.''))"
    by (simp add: prod_eq_iff)
  with empty show ?thesis
    by simp
qed

text \<open>A run that finds the phone and reads its serial number.\<close>

lemma findAdbDevices_phone:
  "findAdbDevices sample_vendors [dongle, phone]
     = ([OpenDevice phone, OpenDevice phone, ControlTransfer phone 0x80 0x06 0x0303 0x0409 255,
         CloseDevice phone],
        Inr [AdbEntry phone adb_iface [0x41, 0x31]])"
  by (simp add: findAdbDevices_def dongle_def phone_def sample_vendors_def
        getAdbInterface_def getSerialNo_def toString_utf16le_def storage_iface_def adb_iface_def
        ADB_CLASS_def ADB_SUBCLASS_def ADB_PROTOCOL_def
        LIBUSB_ENDPOINT_IN_def LIBUSB_REQUEST_GET_DESCRIPTOR_def LIBUSB_DT_STRING_def)


section \<open>Requests and replies on the transport\<close>

lemma get_command_Some: "get_command v = Inr (Some c) \<Longrightarrow> \<exists>p. v = JPacket p \<and> command p = c"
  by (cases v) auto

lemma sendPublicKey_reply:
  assumes "script usb = Resolve sent # Resolve (JPacket reply) # later"
  shows "sendPublicKey publicKey usb =
           Returned (JBool (command reply = CMD_CNXN))
             (usb\<lparr>script := later,
                  calls := calls usb @
                    [(SendMsg CMD_AUTH 3 0 (publicKey @ [CHR 0x00]), Some (Resolve sent)),
                     (RecvMsg CONNECT_MAXDATA, Some (Resolve (JPacket reply)))]\<rparr>)"
  using assms by (simp add: sendPublicKey_def invoke_def)

text \<open>
  Claim C3. \<open>sendPublicKey\<close> sends \<open>AUTH\<close> with \<open>arg0 = 3\<close>, \<open>arg1 = 0\<close> and the public key
  followed by a zero byte, and returns whether the command of the reply is \<open>CNXN\<close>. With that
  result as the outcome of the call made in \<open>SEND_PUBLIC_KEY\<close>, the machine goes to
  \<open>CONNECTED\<close> when the reply is a \<open>CNXN\<close> and to \<open>NOT_CONNECTED\<close> when it is not.
\<close>

theorem send_public_key_successors:
  assumes "script usb = Resolve sent # Resolve (JPacket reply) # later"
    and "state this = SEND_PUBLIC_KEY"
    and "settled (sendPublicKey publicKey usb) = Some r"
    and "script (device this) = r # rest"
  shows "sendPublicKey publicKey usb =
           Returned (JBool (command reply = CMD_CNXN))
             (usb\<lparr>script := later,
                  calls := calls usb @
                    [(SendMsg CMD_AUTH 3 0 (publicKey @ [CHR 0x00]), Some (Resolve sent)),
                     (RecvMsg CONNECT_MAXDATA, Some (Resolve (JPacket reply)))]\<rparr>)
         \<and> step this packet =
             Next (this\<lparr>state := (if command reply = CMD_CNXN then CONNECTED else NOT_CONNECTED),
                    device := (device this)\<lparr>script := rest,
                      calls := calls (device this) @ [(SendPublicKey, Some r)]\<rparr>\<rparr>)
               packet
         \<and> CONNECTED \<noteq> NOT_CONNECTED"
proof (intro conjI)
  note sent = sendPublicKey_reply [OF assms(1), of publicKey]
  then show "sendPublicKey publicKey usb =
           Returned (JBool (command reply = CMD_CNXN))
             (usb\<lparr>script := later,
                  calls := calls usb @
                    [(SendMsg CMD_AUTH 3 0 (publicKey @ [CHR 0x00]), Some (Resolve sent)),
                     (RecvMsg CONNECT_MAXDATA, Some (Resolve (JPacket reply)))]\<rparr>)" .
  from sent assms(3) have "r = Resolve (JBool (command reply = CMD_CNXN))"
    by simp
  with assms(4) show "step this packet =
             Next (this\<lparr>state := (if command reply = CMD_CNXN then CONNECTED else NOT_CONNECTED),
                    device := (device this)\<lparr>script := rest,
                      calls := calls (device this) @ [(SendPublicKey, Some r)]\<rparr>\<rparr>)
               packet"
    by (simp add: step_SEND_PUBLIC_KEY [OF assms(2)] invoke_def)
  show "CONNECTED \<noteq> NOT_CONNECTED"
    by (simp add: fsm_states)
qed

text \<open>The device answers the public key with its banner; and with a new challenge.\<close>

theorem send_public_key_successors_witness:
  "sendPublicKey ''QAAAAA== user@host''
       (transport [Resolve JUndefined, Resolve (JPacket cnxn_packet)])
     = Returned (JBool True)
         \<lparr>script = [],
          calls = [(SendMsg CMD_AUTH 3 0 (''QAAAAA== user@host'' @ [CHR 0x00]),
                    Some (Resolve JUndefined)),
                   (RecvMsg CONNECT_MAXDATA, Some (Resolve (JPacket cnxn_packet)))]\<rparr>
   \<and> step (mocked SEND_PUBLIC_KEY [Resolve (JBool True)]) JUndefined
     = Next \<lparr>state = CONNECTED,
             device = \<lparr>script = [],
                       calls = [(SendPublicKey, Some (Resolve (JBool True)))]\<rparr>\<rparr>
         JUndefined
   \<and> sendPublicKey ''QAAAAA== user@host''
       (transport [Resolve JUndefined, Resolve (JPacket token_packet)])
     = Returned (JBool False)
         \<lparr>script = [],
          calls = [(SendMsg CMD_AUTH 3 0 (''QAAAAA== user@host'' @ [CHR 0x00]),
                    Some (Resolve JUndefined)),
                   (RecvMsg CONNECT_MAXDATA, Some (Resolve (JPacket token_packet)))]\<rparr>
   \<and> step (mocked SEND_PUBLIC_KEY [Resolve (JBool False)]) JUndefined
     = Next \<lparr>state = NOT_CONNECTED,
             device = \<lparr>script = [],
                       calls = [(SendPublicKey, Some (Resolve (JBool False)))]\<rparr>\<rparr>
         JUndefined"
proof -
  have tr: "script (transport [Resolve JUndefined, Resolve (JPacket p)])
              = Resolve JUndefined # Resolve (JPacket p) # []" for p
    by (simp add: transport_def)
  have st: "state (mocked SEND_PUBLIC_KEY outcomes) = SEND_PUBLIC_KEY" for outcomes
    by (simp add: mocked_def)
  have accepted: "settled (sendPublicKey ''QAAAAA== user@host''
                    (transport [Resolve JUndefined, Resolve (JPacket cnxn_packet)]))
                  = Some (Resolve (JBool True))"
    by (simp add: sendPublicKey_reply [OF tr] cnxn_packet_def)
  have refused: "settled (sendPublicKey ''QAAAAA== user@host''
                    (transport [Resolve JUndefined, Resolve (JPacket token_packet)]))
                  = Some (Resolve (JBool False))"
    by (simp add: sendPublicKey_reply [OF tr] token_packet_def adb_commands)
  have sc: "script (device (mocked SEND_PUBLIC_KEY [r])) = r # []" for r
    by (simp add: mocked_def)
  from send_public_key_successors [OF tr st accepted sc, of JUndefined]
       send_public_key_successors [OF tr st refused sc, of JUndefined]
  show ?thesis
    by (simp add: mocked_def transport_def cnxn_packet_def token_packet_def adb_commands)
qed


lemma sendAndOkay_reply:
  assumes "script usb = Resolve sent # Resolve (JPacket reply) # later"
  shows "sendAndOkay cmd a0 a1 payload usb =
           (if command reply \<noteq> CMD_OKAY
            then Thrown (CommandError (Some (command reply)))
                   (usb\<lparr>script := later,
                        calls := calls usb @
                          [(SendMsg cmd a0 a1 payload, Some (Resolve sent)),
                           (RecvMsg CONNECT_MAXDATA, Some (Resolve (JPacket reply)))]\<rparr>)
            else Returned (JPacket reply)
                   (usb\<lparr>script := later,
                        calls := calls usb @
                          [(SendMsg cmd a0 a1 payload, Some (Resolve sent)),
                           (RecvMsg CONNECT_MAXDATA, Some (Resolve (JPacket reply)))]\<rparr>))"
  using assms by (simp add: sendAndOkay_def invoke_def)

text \<open>
  What \<open>sendAndOkay\<close> adds to the record of calls: the send alone when the send does not
  resolve, else the send and one receive; it returns only after a receive of an OKAY.
\<close>

lemma sendAndOkay_calls:
  "(\<exists>r. calls (final (sendAndOkay cmd a0 a1 payload usb))
            = calls usb @ [(SendMsg cmd a0 a1 payload, r)]
         \<and> (\<forall>v u. sendAndOkay cmd a0 a1 payload usb \<noteq> Returned v u))
   \<or> (\<exists>r r'. calls (final (sendAndOkay cmd a0 a1 payload usb))
            = calls usb @ [(SendMsg cmd a0 a1 payload, r), (RecvMsg CONNECT_MAXDATA, r')]
         \<and> (\<forall>v u. sendAndOkay cmd a0 a1 payload usb = Returned v u \<longrightarrow>
               is_okay (RecvMsg CONNECT_MAXDATA, r')))"
  by (auto simp: sendAndOkay_def invoke_def
      split: list.splits outcome.splits sum.splits dest: get_command_Some)

lemma gated_snoc:
  "gated (cs @ [x]) \<longleftrightarrow> gated cs \<and> (cs \<noteq> [] \<longrightarrow> is_wrte x \<longrightarrow> is_okay (last cs))"
  by (induction cs rule: gated.induct) auto

lemma writeAll_gated:
  assumes "gated (calls usb)" and "calls usb = [] \<or> is_okay (last (calls usb))"
  shows "gated (calls (final (writeAll localId remoteId payloads usb)))"
  using assms
proof (induction payloads arbitrary: usb)
  case Nil
  then show ?case by simp
next
  case (Cons payload rest)
  let ?exchange = "sendAndOkay CMD_WRTE localId remoteId payload usb"
  let ?send = "SendMsg CMD_WRTE localId remoteId payload"
  from sendAndOkay_calls [of CMD_WRTE localId remoteId payload usb]
  consider (unsent) r where "calls (final ?exchange) = calls usb @ [(?send, r)]"
      and "\<forall>v u. ?exchange \<noteq> Returned v u"
    | (answered) r r' where
        "calls (final ?exchange) = calls usb @ [(?send, r), (RecvMsg CONNECT_MAXDATA, r')]"
      and "\<forall>v u. ?exchange = Returned v u \<longrightarrow> is_okay (RecvMsg CONNECT_MAXDATA, r')"
    by blast
  then show ?case
  proof cases
    case unsent
    from unsent(2) have "final (writeAll localId remoteId (payload # rest) usb) = final ?exchange"
      by (cases ?exchange) auto
    with unsent(1) Cons.prems show ?thesis
      by (auto simp: gated_snoc)
  next
    case answered
    have after: "gated (calls (final ?exchange))"
    proof -
      have "calls (final ?exchange) = (calls usb @ [(?send, r)]) @ [(RecvMsg CONNECT_MAXDATA, r')]"
        using answered(1) by simp
      moreover have "gated ((calls usb @ [(?send, r)]) @ [(RecvMsg CONNECT_MAXDATA, r')])"
        unfolding gated_snoc [of "calls usb @ [(?send, r)]"] using Cons.prems
        by (auto simp: gated_snoc)
      ultimately show ?thesis by simp
    qed
    show ?thesis
    proof (cases ?exchange)
      case (Returned v u)
      with answered have "is_okay (last (calls u))" and "gated (calls u)"
        using after by auto
      then have "gated (calls (final (writeAll localId remoteId rest u)))"
        by (intro Cons.IH) auto
      with Returned show ?thesis by simp
    next
      case (Thrown e u)
      with after show ?thesis by simp
    next
      case (Pending u)
      with after show ?thesis by simp
    qed
  qed
qed

text \<open>
  Claim C6. When the reply to a message is not an OKAY, \<open>sendAndOkay\<close> throws an error that
  names the command of the reply; when it is an OKAY, \<open>sendAndOkay\<close> returns the packet
  received. So a sequence of writes stops at the first reply that is not an OKAY, and on a
  fresh transport every WRTE but the first is sent straight after a received OKAY.
\<close>

theorem sendAndOkay_requires_okay:
  assumes "script usb = Resolve sent # Resolve (JPacket reply) # later"
  shows "(command reply \<noteq> CMD_OKAY \<longrightarrow>
            sendAndOkay cmd a0 a1 payload usb =
              Thrown (CommandError (Some (command reply)))
                (usb\<lparr>script := later,
                     calls := calls usb @
                       [(SendMsg cmd a0 a1 payload, Some (Resolve sent)),
                        (RecvMsg CONNECT_MAXDATA, Some (Resolve (JPacket reply)))]\<rparr>)
            \<and> writeAll a0 a1 (payload # payloads) usb =
              Thrown (CommandError (Some (command reply)))
                (usb\<lparr>script := later,
                     calls := calls usb @
                       [(SendMsg CMD_WRTE a0 a1 payload, Some (Resolve sent)),
                        (RecvMsg CONNECT_MAXDATA, Some (Resolve (JPacket reply)))]\<rparr>))
       \<and> (command reply = CMD_OKAY \<longrightarrow>
            sendAndOkay cmd a0 a1 payload usb =
              Returned (JPacket reply)
                (usb\<lparr>script := later,
                     calls := calls usb @
                       [(SendMsg cmd a0 a1 payload, Some (Resolve sent)),
                        (RecvMsg CONNECT_MAXDATA, Some (Resolve (JPacket reply)))]\<rparr>))
       \<and> (calls usb = [] \<longrightarrow> gated (calls (final (writeAll a0 a1 (payload # payloads) usb))))"
proof (intro conjI impI)
  assume "command reply \<noteq> CMD_OKAY"
  then show "sendAndOkay cmd a0 a1 payload usb =
              Thrown (CommandError (Some (command reply)))
                (usb\<lparr>script := later,
                     calls := calls usb @
                       [(SendMsg cmd a0 a1 payload, Some (Resolve sent)),
                        (RecvMsg CONNECT_MAXDATA, Some (Resolve (JPacket reply)))]\<rparr>)"
    and "writeAll a0 a1 (payload # payloads) usb =
              Thrown (CommandError (Some (command reply)))
                (usb\<lparr>script := later,
                     calls := calls usb @
                       [(SendMsg CMD_WRTE a0 a1 payload, Some (Resolve sent)),
                        (RecvMsg CONNECT_MAXDATA, Some (Resolve (JPacket reply)))]\<rparr>)"
    by (simp_all add: sendAndOkay_reply [OF assms])
next
  assume "command reply = CMD_OKAY"
  then show "sendAndOkay cmd a0 a1 payload usb =
              Returned (JPacket reply)
                (usb\<lparr>script := later,
                     calls := calls usb @
                       [(SendMsg cmd a0 a1 payload, Some (Resolve sent)),
                        (RecvMsg CONNECT_MAXDATA, Some (Resolve (JPacket reply)))]\<rparr>)"
    by (simp add: sendAndOkay_reply [OF assms])
next
  assume "calls usb = []"
  then show "gated (calls (final (writeAll a0 a1 (payload # payloads) usb)))"
    by (intro writeAll_gated) simp_all
qed

text \<open>
  Two writes on a stream: the device closes the stream after the first, so the second is
  never sent; and the device acknowledges the first.
\<close>

theorem sendAndOkay_requires_okay_witness:
  "sendAndOkay CMD_WRTE 12345 7 ''test''
       (transport [Resolve JUndefined, Resolve (JPacket clse_packet), Resolve JUndefined])
     = Thrown (CommandError (Some CMD_CLSE))
         \<lparr>script = [Resolve JUndefined],
          calls = [(SendMsg CMD_WRTE 12345 7 ''test'', Some (Resolve JUndefined)),
                   (RecvMsg CONNECT_MAXDATA, Some (Resolve (JPacket clse_packet)))]\<rparr>
   \<and> writeAll 12345 7 [''test'', ''more'']
       (transport [Resolve JUndefined, Resolve (JPacket clse_packet), Resolve JUndefined])
     = Thrown (CommandError (Some CMD_CLSE))
         \<lparr>script = [Resolve JUndefined],
          calls = [(SendMsg CMD_WRTE 12345 7 ''test'', Some (Resolve JUndefined)),
                   (RecvMsg CONNECT_MAXDATA, Some (Resolve (JPacket clse_packet)))]\<rparr>
   \<and> sendAndOkay CMD_WRTE 12345 7 ''test''
       (transport [Resolve JUndefined, Resolve (JPacket okay_packet), Resolve JUndefined])
     = Returned (JPacket okay_packet)
         \<lparr>script = [Resolve JUndefined],
          calls = [(SendMsg CMD_WRTE 12345 7 ''test'', Some (Resolve JUndefined)),
                   (RecvMsg CONNECT_MAXDATA, Some (Resolve (JPacket okay_packet)))]\<rparr>"
proof -
  have tr: "script (transport [Resolve JUndefined, Resolve (JPacket p), Resolve JUndefined])
              = Resolve JUndefined # Resolve (JPacket p) # [Resolve JUndefined]" for p
    by (simp add: transport_def)
  have closed: "command clse_packet \<noteq> CMD_OKAY"
    by (simp add: clse_packet_def adb_commands)
  have acknowledged: "command okay_packet = CMD_OKAY"
    by (simp add: okay_packet_def)
  have clse: "command clse_packet = CMD_CLSE"
    by (simp add: clse_packet_def)
  from sendAndOkay_requires_okay [OF tr, of clse_packet CMD_WRTE 12345 7 "''test''" "[''more'']"]
       sendAndOkay_requires_okay [OF tr, of okay_packet CMD_WRTE 12345 7 "''test''" "[]"]
       closed acknowledged
  show ?thesis
    by (simp add: transport_def clse)
qed

end
